theory Spec2Isabelle
  imports Complex_Main
begin

section \<open>JavaScript values and the operators the screen applies to them\<close>

text \<open>
  The screen \<^verbatim>\<open>src/app/(tabs)/index.tsx\<close> reads the body of an HTTP response, which axios
  hands over as \<^verbatim>\<open>any\<close>: whatever JSON the elevation service sent. Nothing checks its shape
  at run time, so the model keeps every shape a JavaScript value can have. Numbers are
  modelled as reals: the screen only copies them (it never computes with them). NaN and
  the infinities (which an overlong JSON literal parses to) are left out; they would be
  copied like any other number. An object is its list of properties, read by the first
  entry of a name.
\<close>

datatype jsval =
    JUndefined
  | JNull
  | JBool bool
  | JNum real
  | JStr string
  | JArr "jsval list"
  | JObj "(string \<times> jsval) list"

text \<open>
  What a \<^verbatim>\<open>throw\<close> carries: the TypeError of reading a property of \<^verbatim>\<open>undefined\<close> or
  \<^verbatim>\<open>null\<close>, and the rejection of a call to an external service (transport failure,
  timeout, a status outside 2xx, a provider error). A computation that may throw returns
  \<open>exn + 'a\<close>, with \<open>Inl\<close> for the thrown value.
\<close>

datatype exn = TypeError | ServiceFailure

fun nullish :: "jsval \<Rightarrow> bool" where
  "nullish JUndefined = True"
| "nullish JNull = True"
| "nullish _ = False"

text \<open>
  \<^verbatim>\<open>v.p\<close> for a property name \<open>p\<close> that no prototype defines (the screen reads
  \<^verbatim>\<open>results\<close> and \<^verbatim>\<open>elevation\<close>): a TypeError on \<^verbatim>\<open>undefined\<close> and \<^verbatim>\<open>null\<close>, the property
  of an object, \<^verbatim>\<open>undefined\<close> on every other value.
\<close>

fun get_prop :: "jsval \<Rightarrow> string \<Rightarrow> exn + jsval" where
  "get_prop JUndefined p = Inl TypeError"
| "get_prop JNull p = Inl TypeError"
| "get_prop (JObj fs) p = Inr (case map_of fs p of None \<Rightarrow> JUndefined | Some v \<Rightarrow> v)"
| "get_prop _ p = Inr JUndefined"

text \<open>
  \<^verbatim>\<open>v[0]\<close>: a TypeError on \<^verbatim>\<open>undefined\<close> and \<^verbatim>\<open>null\<close>; the first element of an array and
  the first character of a string, \<^verbatim>\<open>undefined\<close> when there is none; the property
  \<^verbatim>\<open>"0"\<close> of an object; \<^verbatim>\<open>undefined\<close> on a number or a boolean.
\<close>

fun get_first :: "jsval \<Rightarrow> exn + jsval" where
  "get_first JUndefined = Inl TypeError"
| "get_first JNull = Inl TypeError"
| "get_first (JArr xs) = Inr (case xs of [] \<Rightarrow> JUndefined | x # _ \<Rightarrow> x)"
| "get_first (JStr s) = Inr (case s of [] \<Rightarrow> JUndefined | c # _ \<Rightarrow> JStr [c])"
| "get_first (JObj fs) = Inr (case map_of fs ''0'' of None \<Rightarrow> JUndefined | Some v \<Rightarrow> v)"
| "get_first _ = Inr JUndefined"

text \<open>Optional chaining \<^verbatim>\<open>v?.p\<close> and nullish coalescing \<^verbatim>\<open>a ?? b\<close>.\<close>

definition opt_get_prop :: "jsval \<Rightarrow> string \<Rightarrow> exn + jsval" where
  "opt_get_prop v p = (if nullish v then Inr JUndefined else get_prop v p)"

definition coalesce :: "jsval \<Rightarrow> jsval \<Rightarrow> jsval" where
  "coalesce a b = (if nullish a then b else a)"

text \<open>
  Sequencing of statements that may throw, and \<^verbatim>\<open>try { m } catch (e) { h }\<close>: the handler
  runs on the thrown value, and may throw itself.
\<close>

definition and_then :: "exn + 'a \<Rightarrow> ('a \<Rightarrow> exn + 'b) \<Rightarrow> exn + 'b" where
  "and_then m f = (case m of Inl e \<Rightarrow> Inl e | Inr x \<Rightarrow> f x)"

definition try_catch :: "exn + 'a \<Rightarrow> (exn \<Rightarrow> exn + 'a) \<Rightarrow> exn + 'a" where
  "try_catch m h = (case m of Inl e \<Rightarrow> h e | Inr x \<Rightarrow> Inr x)"

section \<open>The data of the screen\<close>

text \<open>
  \<^verbatim>\<open>location.coords\<close>, the raw position sample. expo-location declares latitude and
  longitude as numbers and altitude and accuracy as \<^verbatim>\<open>number | null\<close>; the background
  task takes its event as \<^verbatim>\<open>any\<close>. The fields are destructured and copied with no check,
  so each one is kept as the JavaScript value it is (an absent field reads as
  \<^verbatim>\<open>undefined\<close>).
\<close>

record LocationObjectCoords =
  latitude :: jsval
  longitude :: jsval
  altitude :: jsval
  accuracy :: jsval

text \<open>
  \<^verbatim>\<open>interface LocationData\<close> (lines 12 to 18), the enriched record: the same four
  fields under the same names, and \<^verbatim>\<open>address\<close>, a string or \<^verbatim>\<open>null\<close>. Its field
  \<^verbatim>\<open>altitude\<close> holds the resolved elevation (\<^verbatim>\<open>altitude: elevation\<close>, lines 65 and 117).
\<close>

record LocationData = LocationObjectCoords +
  address :: "string option"

text \<open>
  One candidate of \<^verbatim>\<open>Location.reverseGeocodeAsync\<close>: the four fields the screen reads, each
  a string or \<^verbatim>\<open>null\<close> as expo-location declares them.
\<close>

record LocationGeocodedAddress =
  name :: "string option"
  city :: "string option"
  region :: "string option"
  country :: "string option"

text \<open>A template literal prints \<^verbatim>\<open>null\<close> as the four letters.\<close>

definition interpolate :: "string option \<Rightarrow> string" where
  "interpolate v = (case v of None \<Rightarrow> ''null'' | Some s \<Rightarrow> s)"

section \<open>Enrichment of a position sample\<close>

text \<open>
  Lines 43 to 46 (and 106 to 109), the body of the first \<^verbatim>\<open>try\<close>: the request, and
  \<^verbatim>\<open>elevationResponse.data.results[0]?.elevation ?? altitude\<close>. The argument \<open>response\<close> is
  what \<^verbatim>\<open>axios.get\<close> did: it threw, or it returned a response with this \<^verbatim>\<open>data\<close>.
\<close>

definition elevation_lookup :: "exn + jsval \<Rightarrow> jsval \<Rightarrow> exn + jsval" where
  "elevation_lookup response alt =
     and_then response (\<lambda>data.
     and_then (get_prop data ''results'') (\<lambda>results.
     and_then (get_first results) (\<lambda>first.
     and_then (opt_get_prop first ''elevation'') (\<lambda>v.
     Inr (coalesce v alt)))))"

text \<open>
  Lines 41 to 49: \<^verbatim>\<open>elevation\<close> starts as the sample's altitude, and the \<^verbatim>\<open>catch\<close> only
  logs, so a throw leaves it there.
\<close>

definition resolve_elevation :: "exn + jsval \<Rightarrow> jsval \<Rightarrow> exn + jsval" where
  "resolve_elevation response alt =
     try_catch (elevation_lookup response alt) (\<lambda>e. Inr alt)"

text \<open>Line 56, the template literal over the first candidate.\<close>

definition format_address :: "LocationGeocodedAddress \<Rightarrow> string" where
  "format_address addressData =
     interpolate (name addressData) @ '', '' @ interpolate (city addressData) @ '', '' @
     interpolate (region addressData) @ '', '' @ interpolate (country addressData)"

text \<open>
  Lines 53 to 57, the body of the second \<^verbatim>\<open>try\<close>; \<open>geocode\<close> is what
  \<^verbatim>\<open>Location.reverseGeocodeAsync\<close> did. Lines 51 to 60: \<^verbatim>\<open>address\<close> starts as \<^verbatim>\<open>null\<close> and
  the \<^verbatim>\<open>catch\<close> only logs.
\<close>

definition address_lookup :: "exn + LocationGeocodedAddress list \<Rightarrow> exn + string option" where
  "address_lookup geocode =
     and_then geocode (\<lambda>reverseGeocode.
     Inr (Some (case reverseGeocode of
                  [] \<Rightarrow> ''Address not found''
                | addressData # _ \<Rightarrow> format_address addressData)))"

definition resolve_address :: "exn + LocationGeocodedAddress list \<Rightarrow> exn + string option" where
  "resolve_address geocode = try_catch (address_lookup geocode) (\<lambda>e. Inr None)"

text \<open>
  Lines 41 to 68 of \<^verbatim>\<open>fetchLocationData\<close>: from the four values that line 39 took out of
  the sample to the record handed to \<^verbatim>\<open>setLocationData\<close>.
\<close>

definition enrich_foreground ::
  "LocationObjectCoords \<Rightarrow> exn + jsval \<Rightarrow> exn + LocationGeocodedAddress list \<Rightarrow> exn + LocationData"
where
  "enrich_foreground coords response geocode =
     and_then (resolve_elevation response (altitude coords)) (\<lambda>elevation.
     and_then (resolve_address geocode) (\<lambda>addr.
     Inr \<lparr> latitude = latitude coords,
           longitude = longitude coords,
           altitude = elevation,
           accuracy = accuracy coords,
           address = addr \<rparr>))"

text \<open>
  Lines 104 to 120 of the background task, from the four values that line 102 took out
  of the sample: the same elevation lookup, no geocoding, and the literal address.
\<close>

definition enrich_background :: "LocationObjectCoords \<Rightarrow> exn + jsval \<Rightarrow> exn + LocationData" where
  "enrich_background coords response =
     and_then (resolve_elevation response (altitude coords)) (\<lambda>elevation.
     Inr \<lparr> latitude = latitude coords,
           longitude = longitude coords,
           altitude = elevation,
           accuracy = accuracy coords,
           address = Some ''Address in background not fetched'' \<rparr>)"

text \<open>
  The operation \<^verbatim>\<open>enrich(sample, {resolveAddress})\<close> of the specification is these two
  code paths: the foreground refresh resolves the address, the background task does not
  (and never calls the geocoder, whatever it would have answered). Here the sample is
  already taken apart into its four fields.
\<close>

definition enrich ::
  "LocationObjectCoords \<Rightarrow> bool \<Rightarrow> exn + jsval \<Rightarrow> exn + LocationGeocodedAddress list
     \<Rightarrow> exn + LocationData"
where
  "enrich sample resolveAddress response geocode =
     (if resolveAddress then enrich_foreground sample response geocode
      else enrich_background sample response)"

text \<open>
  Lines 39 and 102, \<^verbatim>\<open>const { latitude, longitude, altitude, accuracy } = coords\<close>, on
  whatever value \<^verbatim>\<open>coords\<close> is at run time (the background task takes its event as
  \<^verbatim>\<open>any\<close>). Destructuring \<^verbatim>\<open>undefined\<close> or \<^verbatim>\<open>null\<close> is a TypeError; on every other value
  each name is read as a property, and a property that is not there reads as
  \<^verbatim>\<open>undefined\<close>.
\<close>

definition destructure :: "jsval \<Rightarrow> exn + LocationObjectCoords" where
  "destructure coords =
     and_then (get_prop coords ''latitude'') (\<lambda>lat.
     and_then (get_prop coords ''longitude'') (\<lambda>lon.
     and_then (get_prop coords ''altitude'') (\<lambda>alt.
     and_then (get_prop coords ''accuracy'') (\<lambda>acc.
     Inr \<lparr> latitude = lat, longitude = lon, altitude = alt, accuracy = acc \<rparr>))))"

text \<open>
  The two code paths from the sample as it arrives: lines 39 to 68, and lines 102 to 120.
  The destructuring stands before both \<^verbatim>\<open>try\<close> blocks, so its TypeError leaves the
  enrichment.
\<close>

definition enrich_coords ::
  "jsval \<Rightarrow> bool \<Rightarrow> exn + jsval \<Rightarrow> exn + LocationGeocodedAddress list
     \<Rightarrow> exn + LocationData"
where
  "enrich_coords coords resolveAddress response geocode =
     and_then (destructure coords) (\<lambda>sample.
     enrich sample resolveAddress response geocode)"

text \<open>
  The specification calls a sample structurally invalid when its latitude or its longitude
  is absent or not a number. This predicate is the specification's wording; the screen has
  no such check.
\<close>

fun is_number :: "jsval \<Rightarrow> bool" where
  "is_number (JNum x) = True"
| "is_number _ = False"

fun valid_sample :: "jsval \<Rightarrow> bool" where
  "valid_sample (JObj fs) =
     (is_number (case map_of fs ''latitude'' of None \<Rightarrow> JUndefined | Some v \<Rightarrow> v) \<and>
      is_number (case map_of fs ''longitude'' of None \<Rightarrow> JUndefined | Some v \<Rightarrow> v))"
| "valid_sample _ = False"

section \<open>The component's state and its two writers\<close>

text \<open>
  The three \<^verbatim>\<open>useState\<close> slots of \<^verbatim>\<open>RealTimeLocation\<close> (lines 21 to 30).
\<close>

record component_state =
  locationData :: LocationData
  isLoading :: bool
  backgroundLocation :: "LocationData option"

text \<open>
  What the outside world answers during one refresh: the position source, the elevation
  service and the geocoder, each called once.
\<close>

record services =
  getCurrentPositionAsync :: "exn + LocationObjectCoords"
  axios_get :: "exn + jsval"
  reverseGeocodeAsync :: "exn + LocationGeocodedAddress list"

text \<open>
  \<^verbatim>\<open>fetchLocationData\<close> (lines 32 to 74). \<^verbatim>\<open>setLocationData\<close> is the last statement of the
  outer \<^verbatim>\<open>try\<close> and its only write, so a throw inside leaves the state as it was after
  \<^verbatim>\<open>setIsLoading(true)\<close>; the outer \<^verbatim>\<open>catch\<close> only logs; \<^verbatim>\<open>finally\<close> clears the loading
  flag on every path. The result pairs how the call completed with the state it left.
\<close>

definition fetchLocationData :: "services \<Rightarrow> component_state \<Rightarrow> (exn + unit) \<times> component_state" where
  "fetchLocationData w st =
     (let st1 = st\<lparr>isLoading := True\<rparr>;
          tried =
            try_catch
              (and_then (getCurrentPositionAsync w) (\<lambda>coords.
               and_then (enrich_foreground coords (axios_get w) (reverseGeocodeAsync w)) (\<lambda>r.
               Inr (st1\<lparr>locationData := r\<rparr>))))
              (\<lambda>error. Inr st1)
      in case tried of
           Inr st2 \<Rightarrow> (Inr (), st2\<lparr>isLoading := False\<rparr>)
         | Inl e \<Rightarrow> (Inl e, st1\<lparr>isLoading := False\<rparr>))"

text \<open>
  The event handed to the background task (line 94): \<^verbatim>\<open>error\<close>, and \<^verbatim>\<open>data.locations\<close> as
  the list of the samples' coordinates (\<open>None\<close> when \<^verbatim>\<open>data\<close> is absent).
\<close>

record task_event =
  data :: "LocationObjectCoords list option"
  error :: "exn option"

text \<open>
  The callback of \<^verbatim>\<open>TaskManager.defineTask\<close> (lines 94 to 122). It has no \<^verbatim>\<open>try\<close> of its
  own around \<^verbatim>\<open>locations[0].coords\<close>: an empty list of locations is a TypeError that
  leaves the callback.
\<close>

definition backgroundTask ::
  "exn + jsval \<Rightarrow> task_event \<Rightarrow> component_state \<Rightarrow> (exn + unit) \<times> component_state"
where
  "backgroundTask response ev st =
     (case error ev of
        Some e \<Rightarrow> (Inr (), st)
      | None \<Rightarrow>
          (case data ev of
             None \<Rightarrow> (Inr (), st)
           | Some locations \<Rightarrow>
               (case locations of
                  [] \<Rightarrow> (Inl TypeError, st)
                | coords # _ \<Rightarrow>
                    (case enrich_background coords response of
                       Inl e \<Rightarrow> (Inl e, st)
                     | Inr r \<Rightarrow> (Inr (), st\<lparr>backgroundLocation := Some r\<rparr>)))))"

section \<open>Properties\<close>

subsection \<open>Auxiliary facts\<close>

lemma resolve_elevation_value:
  assumes "response = Inr (JObj d)"
    and "map_of d ''results'' = Some (JArr (JObj e # rest))"
    and "map_of e ''elevation'' = Some v"
    and "\<not> nullish v"
  shows "resolve_elevation response alt = Inr v"
  using assms
  by (simp add: resolve_elevation_def try_catch_def elevation_lookup_def and_then_def
        opt_get_prop_def coalesce_def)

lemma resolve_elevation_rejected: "resolve_elevation (Inl x) alt = Inr alt"
  by (simp add: resolve_elevation_def try_catch_def elevation_lookup_def and_then_def)

lemma resolve_elevation_no_results:
  assumes "response = Inr (JObj d)" and "map_of d ''results'' = None"
  shows "resolve_elevation response alt = Inr alt"
  using assms
  by (simp add: resolve_elevation_def try_catch_def elevation_lookup_def and_then_def)

lemma resolve_elevation_empty_results:
  assumes "response = Inr (JObj d)" and "map_of d ''results'' = Some (JArr [])"
  shows "resolve_elevation response alt = Inr alt"
  using assms
  by (simp add: resolve_elevation_def try_catch_def elevation_lookup_def and_then_def
        opt_get_prop_def coalesce_def)

lemma resolve_elevation_no_value:
  assumes "response = Inr (JObj d)"
    and "map_of d ''results'' = Some (JArr (JObj e # rest))"
    and "map_of e ''elevation'' = None \<or> map_of e ''elevation'' = Some JNull"
  shows "resolve_elevation response alt = Inr alt"
  using assms
  by (auto simp add: resolve_elevation_def try_catch_def elevation_lookup_def and_then_def
        opt_get_prop_def coalesce_def)

text \<open>Neither \<^verbatim>\<open>try\<close> block lets a throw out: each resolution returns.\<close>

lemma resolve_elevation_returns: "\<exists>v. resolve_elevation response alt = Inr v"
  by (cases "elevation_lookup response alt") (simp_all add: resolve_elevation_def try_catch_def)

lemma resolve_address_rejected: "resolve_address (Inl x) = Inr None"
  by (simp add: resolve_address_def address_lookup_def try_catch_def and_then_def)

lemma resolve_address_resolved:
  "resolve_address (Inr cs) =
     Inr (Some (case cs of [] \<Rightarrow> ''Address not found'' | a # _ \<Rightarrow> format_address a))"
  by (simp add: resolve_address_def address_lookup_def try_catch_def and_then_def)

lemma resolve_address_returns: "\<exists>a. resolve_address geocode = Inr a"
  by (cases geocode) (simp_all add: resolve_address_rejected resolve_address_resolved)

text \<open>The record of either path, from what the two resolutions returned.\<close>

lemma enrich_foreground_record:
  assumes "resolve_elevation response (altitude sample) = Inr v"
    and "resolve_address geocode = Inr a"
  shows "enrich sample True response geocode =
           Inr \<lparr> latitude = latitude sample, longitude = longitude sample, altitude = v,
                 accuracy = accuracy sample, address = a \<rparr>"
  using assms by (simp add: enrich_def enrich_foreground_def and_then_def)

lemma enrich_background_record:
  assumes "resolve_elevation response (altitude sample) = Inr v"
  shows "enrich sample False response geocode =
           Inr \<lparr> latitude = latitude sample, longitude = longitude sample, altitude = v,
                 accuracy = accuracy sample,
                 address = Some ''Address in background not fetched'' \<rparr>"
  using assms by (simp add: enrich_def enrich_background_def and_then_def)

lemma enrich_record:
  "\<exists>v a. resolve_elevation response (altitude sample) = Inr v \<and>
     enrich sample resolveAddress response geocode =
       Inr \<lparr> latitude = latitude sample, longitude = longitude sample, altitude = v,
             accuracy = accuracy sample, address = a \<rparr> \<and>
     a = (if resolveAddress then projr (resolve_address geocode)
          else Some ''Address in background not fetched'')"
proof -
  obtain v where v: "resolve_elevation response (altitude sample) = Inr v"
    using resolve_elevation_returns by blast
  obtain a where a: "resolve_address geocode = Inr a"
    using resolve_address_returns by blast
  show ?thesis
  proof (cases resolveAddress)
    case True
    with v a enrich_foreground_record [OF v a] show ?thesis by simp
  next
    case False
    with v enrich_background_record [OF v] show ?thesis by simp
  qed
qed

lemma enrich_altitude:
  assumes "resolve_elevation response (altitude sample) = Inr v"
  shows "\<exists>r. enrich sample resolveAddress response geocode = Inr r \<and> altitude r = v"
  using assms enrich_record [of response sample resolveAddress geocode] by auto

text \<open>The two writers of the state, on the paths the claims are about.\<close>

lemma fetchLocationData_position:
  assumes "getCurrentPositionAsync w = Inr sample"
    and "enrich sample True (axios_get w) (reverseGeocodeAsync w) = Inr r"
  shows "fetchLocationData w st = (Inr (), st\<lparr>locationData := r, isLoading := False\<rparr>)"
  using assms
  by (simp add: fetchLocationData_def enrich_def try_catch_def and_then_def)

lemma fetchLocationData_no_position:
  assumes "getCurrentPositionAsync w = Inl e"
  shows "fetchLocationData w st = (Inr (), st\<lparr>isLoading := False\<rparr>)"
  using assms
  by (simp add: fetchLocationData_def try_catch_def and_then_def)

lemma backgroundTask_sample:
  assumes "enrich sample False response geocode = Inr r"
  shows "backgroundTask response \<lparr>data = Some (sample # others), error = None\<rparr> st
           = (Inr (), st\<lparr>backgroundLocation := Some r\<rparr>)"
  using assms by (simp add: backgroundTask_def enrich_def)

text \<open>
  The destructuring of the sample, and the enrichment from the sample as it arrives.
\<close>

lemma destructure_nullish: "nullish coords \<Longrightarrow> destructure coords = Inl TypeError"
  by (cases coords) (simp_all add: destructure_def and_then_def)

lemma destructure_object:
  "destructure (JObj fs) =
     Inr \<lparr> latitude = (case map_of fs ''latitude'' of None \<Rightarrow> JUndefined | Some v \<Rightarrow> v),
           longitude = (case map_of fs ''longitude'' of None \<Rightarrow> JUndefined | Some v \<Rightarrow> v),
           altitude = (case map_of fs ''altitude'' of None \<Rightarrow> JUndefined | Some v \<Rightarrow> v),
           accuracy = (case map_of fs ''accuracy'' of None \<Rightarrow> JUndefined | Some v \<Rightarrow> v) \<rparr>"
  by (simp add: destructure_def and_then_def)

lemma destructure_returns: "\<not> nullish coords \<Longrightarrow> \<exists>sample. destructure coords = Inr sample"
  by (cases coords) (simp_all add: destructure_def and_then_def)

lemma enrich_coords_nullish:
  "nullish coords \<Longrightarrow> enrich_coords coords resolveAddress response geocode = Inl TypeError"
  by (simp add: enrich_coords_def destructure_nullish and_then_def)

lemma enrich_coords_returns:
  assumes "\<not> nullish coords"
  shows "\<exists>r. enrich_coords coords resolveAddress response geocode = Inr r"
proof -
  obtain sample where "destructure coords = Inr sample"
    using destructure_returns [OF assms] by blast
  then show ?thesis
    using enrich_record [of response sample resolveAddress geocode]
    by (auto simp add: enrich_coords_def and_then_def)
qed

lemma valid_sample_not_nullish: "valid_sample coords \<Longrightarrow> \<not> nullish coords"
  by (cases coords) simp_all

lemma enrich_coords_object:
  "\<exists>r. enrich_coords (JObj fs) resolveAddress response geocode = Inr r \<and>
       latitude r = (case map_of fs ''latitude'' of None \<Rightarrow> JUndefined | Some v \<Rightarrow> v) \<and>
       longitude r = (case map_of fs ''longitude'' of None \<Rightarrow> JUndefined | Some v \<Rightarrow> v) \<and>
       accuracy r = (case map_of fs ''accuracy'' of None \<Rightarrow> JUndefined | Some v \<Rightarrow> v)"
proof -
  define sample where "sample =
     \<lparr> latitude = (case map_of fs ''latitude'' of None \<Rightarrow> JUndefined | Some v \<Rightarrow> v),
       longitude = (case map_of fs ''longitude'' of None \<Rightarrow> JUndefined | Some v \<Rightarrow> v),
       altitude = (case map_of fs ''altitude'' of None \<Rightarrow> JUndefined | Some v \<Rightarrow> v),
       accuracy = (case map_of fs ''accuracy'' of None \<Rightarrow> JUndefined | Some v \<Rightarrow> v) \<rparr>"
  have d: "destructure (JObj fs) = Inr sample"
    by (simp add: destructure_object sample_def)
  obtain r where r: "enrich sample resolveAddress response geocode = Inr r"
    and "latitude r = latitude sample" and "longitude r = longitude sample"
    and "accuracy r = accuracy sample"
    using enrich_record [of response sample resolveAddress geocode] by auto
  moreover have "enrich_coords (JObj fs) resolveAddress response geocode = Inr r"
    using d r by (simp add: enrich_coords_def and_then_def)
  ultimately show ?thesis by (simp add: sample_def)
qed

subsection \<open>The claims\<close>

text \<open>
  Claim C1, as the code has it. The elevation of the record follows this order. When the
  request succeeded and the first entry of the \<^verbatim>\<open>results\<close> array carries an \<^verbatim>\<open>elevation\<close>
  that is neither \<^verbatim>\<open>null\<close> nor \<^verbatim>\<open>undefined\<close>, the elevation is that value as it came (a
  number in every well-formed response), whatever the sample's altitude. When the request
  threw, or the body has no \<^verbatim>\<open>results\<close>, or \<^verbatim>\<open>results\<close> is empty, or the first entry has no
  \<^verbatim>\<open>elevation\<close> or a \<^verbatim>\<open>null\<close> one, the elevation is the sample's altitude; so when that
  altitude is absent too, the elevation is absent. This holds on both the foreground and the
  background path.
\<close>

theorem elevation_resolution_order:
  "(response = Inr (JObj d) \<and> map_of d ''results'' = Some (JArr (JObj e # rest)) \<and>
    map_of e ''elevation'' = Some v \<and> \<not> nullish v
      \<longrightarrow> (\<exists>r. enrich sample ra response geocode = Inr r \<and> altitude r = v))
   \<and> (response = Inl x
      \<longrightarrow> (\<exists>r. enrich sample ra response geocode = Inr r \<and> altitude r = altitude sample))
   \<and> (response = Inr (JObj d) \<and> map_of d ''results'' = None
      \<longrightarrow> (\<exists>r. enrich sample ra response geocode = Inr r \<and> altitude r = altitude sample))
   \<and> (response = Inr (JObj d) \<and> map_of d ''results'' = Some (JArr [])
      \<longrightarrow> (\<exists>r. enrich sample ra response geocode = Inr r \<and> altitude r = altitude sample))
   \<and> (response = Inr (JObj d) \<and> map_of d ''results'' = Some (JArr (JObj e # rest)) \<and>
       (map_of e ''elevation'' = None \<or> map_of e ''elevation'' = Some JNull)
      \<longrightarrow> (\<exists>r. enrich sample ra response geocode = Inr r \<and> altitude r = altitude sample))"
proof (intro conjI impI)
  assume "response = Inr (JObj d) \<and> map_of d ''results'' = Some (JArr (JObj e # rest)) \<and>
    map_of e ''elevation'' = Some v \<and> \<not> nullish v"
  then have "resolve_elevation response (altitude sample) = Inr v"
    by (simp add: resolve_elevation_value)
  then show "\<exists>r. enrich sample ra response geocode = Inr r \<and> altitude r = v"
    by (rule enrich_altitude)
next
  assume "response = Inl x"
  then have "resolve_elevation response (altitude sample) = Inr (altitude sample)"
    by (simp add: resolve_elevation_rejected)
  then show "\<exists>r. enrich sample ra response geocode = Inr r \<and> altitude r = altitude sample"
    by (rule enrich_altitude)
next
  assume "response = Inr (JObj d) \<and> map_of d ''results'' = None"
  then have "resolve_elevation response (altitude sample) = Inr (altitude sample)"
    by (simp add: resolve_elevation_no_results)
  then show "\<exists>r. enrich sample ra response geocode = Inr r \<and> altitude r = altitude sample"
    by (rule enrich_altitude)
next
  assume "response = Inr (JObj d) \<and> map_of d ''results'' = Some (JArr [])"
  then have "resolve_elevation response (altitude sample) = Inr (altitude sample)"
    by (simp add: resolve_elevation_empty_results)
  then show "\<exists>r. enrich sample ra response geocode = Inr r \<and> altitude r = altitude sample"
    by (rule enrich_altitude)
next
  assume "response = Inr (JObj d) \<and> map_of d ''results'' = Some (JArr (JObj e # rest)) \<and>
       (map_of e ''elevation'' = None \<or> map_of e ''elevation'' = Some JNull)"
  then have "resolve_elevation response (altitude sample) = Inr (altitude sample)"
    using resolve_elevation_no_value [of response d e rest] by blast
  then show "\<exists>r. enrich sample ra response geocode = Inr r \<and> altitude r = altitude sample"
    by (rule enrich_altitude)
qed

text \<open>
  The theorem at responses of the shape the elevation service sends (with its other
  fields), one for each of its five cases; in the third the altitude is absent and so is
  the elevation.
\<close>

theorem elevation_resolution_order_witness:
  "(\<exists>r. enrich \<lparr>latitude = JNum 37.422, longitude = JNum (- 122.084), altitude = JNum 10,
               accuracy = JNum 5\<rparr> True
        (Inr (JObj [(''results'',
                     JArr [JObj [(''dataset'', JStr ''test-dataset''), (''elevation'', JNum 815),
                                 (''location'', JObj [(''lat'', JNum 37.422), (''lng'', JNum (- 122.084))])]]),
                    (''status'', JStr ''OK'')]))
        (Inr []) = Inr r \<and> altitude r = JNum 815)
   \<and> (\<exists>r. enrich \<lparr>latitude = JNum 37.422, longitude = JNum (- 122.084), altitude = JNum 10,
               accuracy = JNum 5\<rparr> False (Inl ServiceFailure) (Inr []) = Inr r \<and> altitude r = JNum 10)
   \<and> (\<exists>r. enrich \<lparr>latitude = JNum 37.422, longitude = JNum (- 122.084), altitude = JNull,
               accuracy = JNum 5\<rparr> True (Inr (JObj [(''error'', JStr ''Invalid location''), (''status'', JStr ''INVALID_REQUEST'')]))
               (Inr []) = Inr r \<and> altitude r = JNull)
   \<and> (\<exists>r. enrich \<lparr>latitude = JNum 37.422, longitude = JNum (- 122.084), altitude = JNum 10,
               accuracy = JNum 5\<rparr> True (Inr (JObj [(''results'', JArr []), (''status'', JStr ''OK'')]))
               (Inr []) = Inr r \<and> altitude r = JNum 10)
   \<and> (\<exists>r. enrich \<lparr>latitude = JNum 37.422, longitude = JNum (- 122.084), altitude = JNum 10,
               accuracy = JNum 5\<rparr> True
               (Inr (JObj [(''results'', JArr [JObj [(''dataset'', JStr ''test-dataset''), (''elevation'', JNull)]]),
                           (''status'', JStr ''OK'')]))
               (Inr []) = Inr r \<and> altitude r = JNum 10)"
proof -
  let ?s = "\<lparr>latitude = JNum 37.422, longitude = JNum (- 122.084), altitude = JNum 10,
               accuracy = JNum 5\<rparr>"
  let ?t = "\<lparr>latitude = JNum 37.422, longitude = JNum (- 122.084), altitude = JNull,
               accuracy = JNum 5\<rparr>"
  let ?ea = "[(''dataset'', JStr ''test-dataset''), (''elevation'', JNum 815),
              (''location'', JObj [(''lat'', JNum 37.422), (''lng'', JNum (- 122.084))])]"
  let ?da = "[(''results'', JArr [JObj ?ea]), (''status'', JStr ''OK'')]"
  let ?dc = "[(''error'', JStr ''Invalid location''), (''status'', JStr ''INVALID_REQUEST'')]"
  let ?dd = "[(''results'', JArr []), (''status'', JStr ''OK'')]"
  let ?ee = "[(''dataset'', JStr ''test-dataset''), (''elevation'', JNull)]"
  let ?de = "[(''results'', JArr [JObj ?ee]), (''status'', JStr ''OK'')]"
  have c1: "\<exists>r. enrich ?s True (Inr (JObj ?da)) (Inr []) = Inr r \<and> altitude r = JNum 815"
    using elevation_resolution_order
      [where response = "Inr (JObj ?da)" and d = ?da and e = ?ea and rest = "[]"
         and v = "JNum 815" and sample = ?s and ra = True and geocode = "Inr []"]
    by simp
  have c2: "\<exists>r. enrich ?s False (Inl ServiceFailure) (Inr []) = Inr r \<and> altitude r = JNum 10"
    using elevation_resolution_order
      [where response = "Inl ServiceFailure" and x = ServiceFailure and sample = ?s
         and ra = False and geocode = "Inr []"]
    by simp
  have c3: "\<exists>r. enrich ?t True (Inr (JObj ?dc)) (Inr []) = Inr r \<and> altitude r = JNull"
    using elevation_resolution_order
      [where response = "Inr (JObj ?dc)" and d = ?dc and sample = ?t and ra = True
         and geocode = "Inr []"]
    by simp
  have c4: "\<exists>r. enrich ?s True (Inr (JObj ?dd)) (Inr []) = Inr r \<and> altitude r = JNum 10"
    using elevation_resolution_order
      [where response = "Inr (JObj ?dd)" and d = ?dd and sample = ?s and ra = True
         and geocode = "Inr []"]
    by simp
  have c5: "\<exists>r. enrich ?s True (Inr (JObj ?de)) (Inr []) = Inr r \<and> altitude r = JNum 10"
    using elevation_resolution_order
      [where response = "Inr (JObj ?de)" and d = ?de and e = ?ee and rest = "[]"
         and sample = ?s and ra = True and geocode = "Inr []"]
    by simp
  from c1 c2 c3 c4 c5 show ?thesis by (intro conjI)
qed

text \<open>
  Claim C1 as it is worded fails where the service answers with an \<^verbatim>\<open>elevation\<close> that is
  present but not a number: \<^verbatim>\<open>??\<close> only replaces \<^verbatim>\<open>null\<close> and \<^verbatim>\<open>undefined\<close>, so the string
  is stored as the elevation, and the sample's altitude of 10 is not used.
\<close>

theorem non_numeric_elevation_counterexample:
  "enrich \<lparr>latitude = JNum 37.422, longitude = JNum (- 122.084), altitude = JNum 10,
            accuracy = JNum 5\<rparr> True
     (Inr (JObj [(''results'', JArr [JObj [(''elevation'', JStr ''unknown'')]])]))
     (Inr [])
   = Inr \<lparr>latitude = JNum 37.422, longitude = JNum (- 122.084), altitude = JStr ''unknown'',
           accuracy = JNum 5, address = Some ''Address not found''\<rparr>
   \<and> \<not> is_number (JStr ''unknown'') \<and> JStr ''unknown'' \<noteq> JNum 10"
  by (simp add: enrich_def enrich_foreground_def and_then_def
        resolve_elevation_def elevation_lookup_def opt_get_prop_def coalesce_def
        resolve_address_def address_lookup_def try_catch_def)

text \<open>
  Claim C2. The record that \<^verbatim>\<open>enrich\<close> returns has the latitude, the longitude and the
  accuracy of the sample, unchanged. This holds for every sample (a structurally valid one
  in particular), on both paths and whatever the two lookups did.
\<close>

theorem enrich_copies_position:
  "\<exists>r. enrich sample resolveAddress response geocode = Inr r \<and>
       latitude r = latitude sample \<and> longitude r = longitude sample \<and>
       accuracy r = accuracy sample"
  using enrich_record [of response sample resolveAddress geocode] by auto

text \<open>
  Claim C3. When the address is to be resolved and the reverse-geocoding call throws (an
  exception or a timeout), \<^verbatim>\<open>enrich\<close> still returns a record (nothing is thrown to the
  caller), and its address is \<^verbatim>\<open>null\<close>, not a placeholder string; whatever the sample and
  the elevation lookup.
\<close>

theorem geocode_failure_leaves_address_null:
  "\<exists>r. enrich sample True response (Inl x) = Inr r \<and> address r = None"
proof -
  obtain v where "resolve_elevation response (altitude sample) = Inr v"
    using resolve_elevation_returns by blast
  then show ?thesis
    using enrich_foreground_record [OF _ resolve_address_rejected] by simp
qed

text \<open>
  Claim C4. Without address resolution (the background path) the address of the record is
  the one literal \<^verbatim>\<open>'Address in background not fetched'\<close>, whether the elevation lookup
  succeeded or failed; and this is the record the background task stores.
\<close>

theorem background_address_not_attempted:
  "\<exists>r. enrich sample False response geocode = Inr r \<and>
       address r = Some ''Address in background not fetched'' \<and>
       backgroundTask response \<lparr>data = Some (sample # others), error = None\<rparr> st
         = (Inr (), st\<lparr>backgroundLocation := Some r\<rparr>)"
proof -
  obtain v where "resolve_elevation response (altitude sample) = Inr v"
    using resolve_elevation_returns by blast
  then have "enrich sample False response geocode =
           Inr \<lparr> latitude = latitude sample, longitude = longitude sample, altitude = v,
                 accuracy = accuracy sample,
                 address = Some ''Address in background not fetched'' \<rparr>"
    by (rule enrich_background_record)
  then show ?thesis
    using backgroundTask_sample [of sample response geocode _ others st] by simp
qed

text \<open>
  Claim C5. When the address is to be resolved and the geocoder returns no candidate, the
  address is the literal \<^verbatim>\<open>'Address not found'\<close>: a string, not the \<^verbatim>\<open>null\<close> of a failed
  lookup.
\<close>

theorem no_candidates_address_not_found:
  "\<exists>r. enrich sample True response (Inr []) = Inr r \<and>
       address r = Some ''Address not found'' \<and> address r \<noteq> None"
proof -
  obtain v where "resolve_elevation response (altitude sample) = Inr v"
    using resolve_elevation_returns by blast
  then show ?thesis
    using enrich_foreground_record [OF _ resolve_address_resolved [of "[]"]] by simp
qed

text \<open>
  Claim C6, as the code has it. \<^verbatim>\<open>enrich\<close> fails exactly when the sample itself is
  \<^verbatim>\<open>null\<close> or \<^verbatim>\<open>undefined\<close>, and then with the TypeError of destructuring it: the screen
  checks no field of the sample and has no InvalidInput error. For every structurally valid
  sample it returns a record, whatever the two lookups did. For every sample that is an
  object, valid or not, it returns a record whose latitude, longitude and accuracy are the
  sample's properties as they are, \<^verbatim>\<open>undefined\<close> where the sample has none.
\<close>

theorem enrich_fails_only_without_sample:
  "((enrich_coords coords resolveAddress response geocode = Inl e) =
      (nullish coords \<and> e = TypeError))
   \<and> (valid_sample coords
      \<longrightarrow> (\<exists>r. enrich_coords coords resolveAddress response geocode = Inr r))
   \<and> (coords = JObj fs
      \<longrightarrow> (\<exists>r. enrich_coords coords resolveAddress response geocode = Inr r \<and>
            latitude r = (case map_of fs ''latitude'' of None \<Rightarrow> JUndefined | Some v \<Rightarrow> v) \<and>
            longitude r = (case map_of fs ''longitude'' of None \<Rightarrow> JUndefined | Some v \<Rightarrow> v) \<and>
            accuracy r = (case map_of fs ''accuracy'' of None \<Rightarrow> JUndefined | Some v \<Rightarrow> v)))"
proof (intro conjI impI)
  show "(enrich_coords coords resolveAddress response geocode = Inl e) =
          (nullish coords \<and> e = TypeError)"
  proof (cases "nullish coords")
    case True
    then show ?thesis
      using enrich_coords_nullish [of coords resolveAddress response geocode] by auto
  next
    case False
    then show ?thesis
      using enrich_coords_returns [of coords resolveAddress response geocode] by auto
  qed
next
  assume "valid_sample coords"
  then have "\<not> nullish coords" by (rule valid_sample_not_nullish)
  then show "\<exists>r. enrich_coords coords resolveAddress response geocode = Inr r"
    by (rule enrich_coords_returns)
next
  assume "coords = JObj fs"
  then show "\<exists>r. enrich_coords coords resolveAddress response geocode = Inr r \<and>
            latitude r = (case map_of fs ''latitude'' of None \<Rightarrow> JUndefined | Some v \<Rightarrow> v) \<and>
            longitude r = (case map_of fs ''longitude'' of None \<Rightarrow> JUndefined | Some v \<Rightarrow> v) \<and>
            accuracy r = (case map_of fs ''accuracy'' of None \<Rightarrow> JUndefined | Some v \<Rightarrow> v)"
    using enrich_coords_object [of fs resolveAddress response geocode] by simp
qed

text \<open>
  The theorem at a \<^verbatim>\<open>null\<close> sample, at a valid sample with both lookups failing, and at
  an object with no latitude and a longitude that is not a number.
\<close>

theorem enrich_fails_only_without_sample_witness:
  "enrich_coords JNull False (Inl ServiceFailure) (Inl ServiceFailure) = Inl TypeError
   \<and> valid_sample (JObj [(''latitude'', JNum 37.422), (''longitude'', JNum (- 122.084)),
                         (''altitude'', JNull), (''accuracy'', JNum 5)])
   \<and> (\<exists>r. enrich_coords (JObj [(''latitude'', JNum 37.422), (''longitude'', JNum (- 122.084)),
                                (''altitude'', JNull), (''accuracy'', JNum 5)])
              True (Inl ServiceFailure) (Inl ServiceFailure) = Inr r)
   \<and> (\<exists>r. enrich_coords (JObj [(''longitude'', JStr ''abc''), (''altitude'', JNull),
                                (''accuracy'', JNull)])
              False (Inl ServiceFailure) (Inl ServiceFailure) = Inr r \<and>
            latitude r = JUndefined \<and> longitude r = JStr ''abc'' \<and> accuracy r = JNull)"
proof -
  let ?good = "JObj [(''latitude'', JNum 37.422), (''longitude'', JNum (- 122.084)),
                     (''altitude'', JNull), (''accuracy'', JNum 5)]"
  let ?fs = "[(''longitude'', JStr ''abc''), (''altitude'', JNull), (''accuracy'', JNull)]"
  have a: "enrich_coords JNull False (Inl ServiceFailure) (Inl ServiceFailure) = Inl TypeError"
    using enrich_fails_only_without_sample
      [where coords = JNull and resolveAddress = False and response = "Inl ServiceFailure"
         and geocode = "Inl ServiceFailure" and e = TypeError]
    by simp
  have v: "valid_sample ?good" by simp
  have b: "\<exists>r. enrich_coords ?good True (Inl ServiceFailure) (Inl ServiceFailure) = Inr r"
    using v enrich_fails_only_without_sample
      [where coords = ?good and resolveAddress = True and response = "Inl ServiceFailure"
         and geocode = "Inl ServiceFailure"]
    by blast
  have c: "\<exists>r. enrich_coords (JObj ?fs) False (Inl ServiceFailure) (Inl ServiceFailure) = Inr r \<and>
            latitude r = JUndefined \<and> longitude r = JStr ''abc'' \<and> accuracy r = JNull"
    using enrich_fails_only_without_sample
      [where coords = "JObj ?fs" and fs = ?fs and resolveAddress = False
         and response = "Inl ServiceFailure" and geocode = "Inl ServiceFailure"]
    by simp
  from a v b c show ?thesis by (intro conjI)
qed

text \<open>
  Claim C6 as it is worded fails on the background path at a sample with no latitude and
  a longitude that is not a number: the sample is structurally invalid, and the enrichment
  returns a record that copies the two fields as they are.
\<close>

theorem invalid_sample_counterexample:
  "\<not> valid_sample (JObj [(''longitude'', JStr ''abc''), (''altitude'', JNull),
                           (''accuracy'', JNull)])
   \<and> enrich_coords (JObj [(''longitude'', JStr ''abc''), (''altitude'', JNull),
                          (''accuracy'', JNull)])
        False (Inl ServiceFailure) (Inl ServiceFailure)
     = Inr \<lparr>latitude = JUndefined, longitude = JStr ''abc'', altitude = JNull,
             accuracy = JNull, address = Some ''Address in background not fetched''\<rparr>"
  by (simp add: enrich_coords_def destructure_def enrich_def enrich_background_def and_then_def
        resolve_elevation_def elevation_lookup_def try_catch_def)

text \<open>
  Claim C7. The scenario of the specification: the sample at the Googleplex, an elevation
  service that answers 12.3 in the first entry of \<^verbatim>\<open>results\<close>, and one candidate from the
  geocoder. More generally the address is the name, city, region and country of the first
  candidate, joined by a comma and a space.
\<close>

theorem googleplex_scenario:
  "enrich \<lparr>latitude = JNum 37.422, longitude = JNum (- 122.084), altitude = JNum 10.0,
            accuracy = JNum 5.0\<rparr> True
     (Inr (JObj [(''results'', JArr [JObj [(''elevation'', JNum 12.3)]])]))
     (Inr [\<lparr>name = Some ''Googleplex'', city = Some ''Mountain View'', region = Some ''CA'',
            country = Some ''USA''\<rparr>])
   = Inr \<lparr>latitude = JNum 37.422, longitude = JNum (- 122.084), altitude = JNum 12.3,
           accuracy = JNum 5.0, address = Some ''Googleplex, Mountain View, CA, USA''\<rparr>
   \<and> (\<exists>r. enrich sample True response
            (Inr (\<lparr>name = Some n, city = Some c, region = Some g, country = Some k\<rparr> # others))
          = Inr r \<and> address r = Some (n @ '', '' @ c @ '', '' @ g @ '', '' @ k))"
proof
  show "enrich \<lparr>latitude = JNum 37.422, longitude = JNum (- 122.084), altitude = JNum 10.0,
            accuracy = JNum 5.0\<rparr> True
     (Inr (JObj [(''results'', JArr [JObj [(''elevation'', JNum 12.3)]])]))
     (Inr [\<lparr>name = Some ''Googleplex'', city = Some ''Mountain View'', region = Some ''CA'',
            country = Some ''USA''\<rparr>])
   = Inr \<lparr>latitude = JNum 37.422, longitude = JNum (- 122.084), altitude = JNum 12.3,
           accuracy = JNum 5.0, address = Some ''Googleplex, Mountain View, CA, USA''\<rparr>"
    by (simp add: enrich_def enrich_foreground_def and_then_def
        resolve_elevation_def elevation_lookup_def opt_get_prop_def coalesce_def
        resolve_address_def address_lookup_def try_catch_def format_address_def interpolate_def)
next
  obtain v where "resolve_elevation response (altitude sample) = Inr v"
    using resolve_elevation_returns by blast
  then show "\<exists>r. enrich sample True response
            (Inr (\<lparr>name = Some n, city = Some c, region = Some g, country = Some k\<rparr> # others))
          = Inr r \<and> address r = Some (n @ '', '' @ c @ '', '' @ g @ '', '' @ k)"
    using enrich_foreground_record [OF _ resolve_address_resolved]
    by (simp add: format_address_def interpolate_def)
qed

text \<open>
  Claim C8. The two lookups do not interfere. For a fixed sample and a fixed answer of the
  geocoder, the address is the same under any two outcomes of the elevation lookup; for a
  fixed outcome of the elevation lookup, the elevation is the same under any two outcomes
  of the geocoder.
\<close>

theorem lookups_independent:
  "(\<exists>r1 r2. enrich sample resolveAddress response1 geocode = Inr r1 \<and>
            enrich sample resolveAddress response2 geocode = Inr r2 \<and>
            address r1 = address r2)
   \<and> (\<exists>r1 r2. enrich sample resolveAddress response geocode1 = Inr r1 \<and>
            enrich sample resolveAddress response geocode2 = Inr r2 \<and>
            altitude r1 = altitude r2)"
proof
  show "\<exists>r1 r2. enrich sample resolveAddress response1 geocode = Inr r1 \<and>
            enrich sample resolveAddress response2 geocode = Inr r2 \<and>
            address r1 = address r2"
    using enrich_record [of response1 sample resolveAddress geocode]
      enrich_record [of response2 sample resolveAddress geocode]
    by auto
next
  show "\<exists>r1 r2. enrich sample resolveAddress response geocode1 = Inr r1 \<and>
            enrich sample resolveAddress response geocode2 = Inr r2 \<and>
            altitude r1 = altitude r2"
    using enrich_record [of response sample resolveAddress geocode1]
      enrich_record [of response sample resolveAddress geocode2]
    by auto
qed

text \<open>
  Claim C9. \<^verbatim>\<open>enrich\<close> is deterministic. The sample, the option and the two responses
  fix one record, and that record is what a refresh stores from every state of the
  component: the state a first call left (its record, its loading flag) has no effect on
  the record of a second call with the same sample and responses. Likewise for the record
  the background task stores.
\<close>

theorem enrich_deterministic:
  "\<exists>r. enrich sample True (axios_get w) (reverseGeocodeAsync w) = Inr r \<and>
       (\<forall>st. locationData (snd (fetchLocationData (w\<lparr>getCurrentPositionAsync := Inr sample\<rparr>) st)) = r) \<and>
       (\<exists>b. enrich sample False response geocode = Inr b \<and>
          (\<forall>st. backgroundLocation
                  (snd (backgroundTask response \<lparr>data = Some (sample # others), error = None\<rparr> st))
                = Some b))"
proof -
  obtain r where r: "enrich sample True (axios_get w) (reverseGeocodeAsync w) = Inr r"
    using enrich_record [of "axios_get w" sample True "reverseGeocodeAsync w"] by auto
  obtain b where b: "enrich sample False response geocode = Inr b"
    using enrich_record [of response sample False geocode] by auto
  have "locationData (snd (fetchLocationData (w\<lparr>getCurrentPositionAsync := Inr sample\<rparr>) st)) = r"
    for st
    using r fetchLocationData_position [of "w\<lparr>getCurrentPositionAsync := Inr sample\<rparr>" sample r st]
    by simp
  moreover have "backgroundLocation
                  (snd (backgroundTask response \<lparr>data = Some (sample # others), error = None\<rparr> st))
                = Some b" for st
    using backgroundTask_sample [OF b] by simp
  ultimately show ?thesis using r b by blast
qed

text \<open>
  Claim C10. When the position source throws, the refresh returns normally (the outer
  \<^verbatim>\<open>catch\<close> takes the error), the stored record is the one that was there before with
  every field as it was, and the only thing written is the loading flag, cleared by
  \<^verbatim>\<open>finally\<close>.
\<close>

theorem position_failure_keeps_record:
  "fetchLocationData (w\<lparr>getCurrentPositionAsync := Inl e\<rparr>) st = (Inr (), st\<lparr>isLoading := False\<rparr>)
   \<and> locationData (snd (fetchLocationData (w\<lparr>getCurrentPositionAsync := Inl e\<rparr>) st)) = locationData st"
  using fetchLocationData_no_position [of "w\<lparr>getCurrentPositionAsync := Inl e\<rparr>" e st]
  by simp

end
